theory Spec2Isabelle
  imports Main "HOL-Library.Word"
begin

section \<open>JavaScript strings\<close>

text \<open>
  A JavaScript string is a sequence of 16-bit code units. The string operations the
  pipeline uses (\<^verbatim>\<open>trim\<close>, \<^verbatim>\<open>split\<close>, indexing, template concatenation, truthiness)
  are defined on that representation. \<open>lit\<close> embeds the ASCII literals of the source.
\<close>

type_synonym code_unit = "16 word"
type_synonym jsstring = "code_unit list"

definition lit :: "string \<Rightarrow> jsstring" where
  "lit s = map of_char s"

text \<open>
  \<^verbatim>\<open>String.prototype.trim\<close> strips the ECMAScript WhiteSpace and LineTerminator code
  points from both ends; all of them are single code units.
\<close>

definition isWhiteSpace :: "code_unit \<Rightarrow> bool" where
  "isWhiteSpace c = (c \<in> {0x0009, 0x000A, 0x000B, 0x000C, 0x000D, 0x0020, 0x00A0, 0x1680,
      0x2000, 0x2001, 0x2002, 0x2003, 0x2004, 0x2005, 0x2006, 0x2007, 0x2008, 0x2009,
      0x200A, 0x2028, 0x2029, 0x202F, 0x205F, 0x3000, 0xFEFF})"

definition trim :: "jsstring \<Rightarrow> jsstring" where
  "trim s = rev (dropWhile isWhiteSpace (rev (dropWhile isWhiteSpace s)))"

text \<open>
  \<^verbatim>\<open>s.split(sep)\<close> for a one-character separator: the pieces between the separators,
  always at least one piece. \<open>split_from\<close> scans the string with the current piece
  (reversed) in hand.
\<close>

fun split_from :: "code_unit \<Rightarrow> jsstring \<Rightarrow> jsstring \<Rightarrow> jsstring list" where
  "split_from sep piece [] = [rev piece]"
| "split_from sep piece (c # cs) =
     (if c = sep then rev piece # split_from sep [] cs
      else split_from sep (c # piece) cs)"

definition split :: "code_unit \<Rightarrow> jsstring \<Rightarrow> jsstring list" where
  "split sep s = split_from sep [] s"

text \<open>Array indexing \<^verbatim>\<open>xs[i]\<close>: \<open>None\<close> is JavaScript's \<^verbatim>\<open>undefined\<close>.\<close>

definition at :: "'a list \<Rightarrow> nat \<Rightarrow> 'a option" where
  "at xs i = (if i < length xs then Some (xs ! i) else None)"

section \<open>The component state of \<^verbatim>\<open>App\<close>\<close>

text \<open>The fields of a browser \<^verbatim>\<open>File\<close> the component reads: its name and its size in bytes.\<close>

record File =
  name :: jsstring
  size_bytes :: nat

text \<open>
  Modelled from the spec: the enum \<^verbatim>\<open>ProcessingStatus\<close> is imported from \<^verbatim>\<open>./types\<close>,
  which is not among the sources. The spec names the four states Idle, Processing,
  Success and Error; the component uses the members \<^verbatim>\<open>IDLE\<close>, \<^verbatim>\<open>PROCESSING\<close>,
  \<^verbatim>\<open>SUCCESS\<close> and \<^verbatim>\<open>ERROR\<close>.
\<close>

datatype ProcessingStatus = IDLE | PROCESSING | SUCCESS | ERROR

text \<open>
  The seven \<^verbatim>\<open>useState\<close> cells of \<^verbatim>\<open>App\<close> (App.tsx, lines 140-146). The cell
  \<^verbatim>\<open>file\<close> is the field \<open>file_sel\<close>.
\<close>

record app_state =
  file_sel :: "File option"
  audioSrc :: "jsstring option"
  status :: ProcessingStatus
  statusMessage :: jsstring
  lyrics :: jsstring
  error :: "jsstring option"
  progress :: nat

definition initial :: app_state where
  "initial = \<lparr> file_sel = None, audioSrc = None, status = IDLE,
     statusMessage = lit ''Select an audio file to begin.'',
     lyrics = [], error = None, progress = 0 \<rparr>"

text \<open>
  A value that is thrown or that rejects a promise: an instance of \<^verbatim>\<open>Error\<close> with its
  \<^verbatim>\<open>message\<close>, or any other value (an event object, a string, ...), of which the code
  reads nothing.
\<close>

datatype thrown = JsError jsstring | NonError

text \<open>
  A handler is a sequence of state-setter calls and of effects on the outside world.
  Its model is the list of these events in program order; the states follow by applying
  the setter calls one after the other. Every setter call of the source passes a value
  (never an updater function), so a call overwrites one cell.
\<close>

datatype setter =
    SetFile "File option"
  | SetAudioSrc "jsstring option"
  | SetStatus ProcessingStatus
  | SetStatusMessage jsstring
  | SetLyrics jsstring
  | SetError "jsstring option"
  | SetProgress nat

datatype effect =
    ReadAsDataURL File
  | Wait nat
  | GenerateContent "jsstring option" "jsstring option"
  | ConsoleError thrown
  | RevokeObjectURL jsstring
  | CreateObjectURL File

datatype event = Set setter | Eff effect

fun apply_setter :: "setter \<Rightarrow> app_state \<Rightarrow> app_state" where
  "apply_setter (SetFile v) s = s\<lparr>file_sel := v\<rparr>"
| "apply_setter (SetAudioSrc v) s = s\<lparr>audioSrc := v\<rparr>"
| "apply_setter (SetStatus v) s = s\<lparr>status := v\<rparr>"
| "apply_setter (SetStatusMessage v) s = s\<lparr>statusMessage := v\<rparr>"
| "apply_setter (SetLyrics v) s = s\<lparr>lyrics := v\<rparr>"
| "apply_setter (SetError v) s = s\<lparr>error := v\<rparr>"
| "apply_setter (SetProgress v) s = s\<lparr>progress := v\<rparr>"

text \<open>The state after a sequence of events, and the states after each setter call of it.\<close>

fun exec :: "event list \<Rightarrow> app_state \<Rightarrow> app_state" where
  "exec [] s = s"
| "exec (Set u # es) s = exec es (apply_setter u s)"
| "exec (Eff _ # es) s = exec es s"

fun states :: "event list \<Rightarrow> app_state \<Rightarrow> app_state list" where
  "states [] s = []"
| "states (Set u # es) s = apply_setter u s # states es (apply_setter u s)"
| "states (Eff _ # es) s = states es s"

section \<open>The handlers\<close>

text \<open>\<^verbatim>\<open>handleReset\<close> (App.tsx, lines 160-168).\<close>

definition handleReset :: "event list" where
  "handleReset =
     [Set (SetFile None),
      Set (SetAudioSrc None),
      Set (SetLyrics []),
      Set (SetError None),
      Set (SetStatus IDLE),
      Set (SetStatusMessage (lit ''Select an audio file to begin.'')),
      Set (SetProgress 0)]"

text \<open>
  What the handlers need of the outside world, as functions of what the code passes:
  the outcome of \<^verbatim>\<open>FileReader.readAsDataURL\<close> (the \<^verbatim>\<open>result\<close> string when \<^verbatim>\<open>onload\<close>
  fires, \<open>None\<close> when \<^verbatim>\<open>onerror\<close> fires), the outcome of
  \<^verbatim>\<open>ai.models.generateContent\<close> followed by the read of \<^verbatim>\<open>response.text\<close> (the text,
  or the value thrown), and the URL that \<^verbatim>\<open>URL.createObjectURL\<close> returns. Every awaited
  promise is taken to settle.
\<close>

record world =
  readAsDataURL :: "File \<Rightarrow> jsstring option"
  generateContent :: "jsstring option \<Rightarrow> jsstring option \<Rightarrow> thrown + jsstring"
  createObjectURL :: "File \<Rightarrow> jsstring"

text \<open>
  \<^verbatim>\<open>fileToBase64\<close> (App.tsx, lines 9-21). On load the data URL is cut at \<^verbatim>\<open>;\<close>, \<^verbatim>\<open>:\<close>
  and \<^verbatim>\<open>,\<close>; a missing piece is \<^verbatim>\<open>undefined\<close>. On error the promise rejects with the
  argument of the \<^verbatim>\<open>onerror\<close> handler, the reader's event object, which is not an
  instance of \<^verbatim>\<open>Error\<close>.
\<close>

record payload =
  base64 :: "jsstring option"
  mimeType :: "jsstring option"

definition fileToBase64 :: "world \<Rightarrow> File \<Rightarrow> event list \<times> (thrown + payload)" where
  "fileToBase64 w f =
     ([Eff (ReadAsDataURL f)],
      (case readAsDataURL w f of
         Some result \<Rightarrow>
           Inr \<lparr> base64 = at (split (of_char CHR '','') result) 1,
                 mimeType = at (split (of_char CHR '':'')
                                  (hd (split (of_char CHR '';'') result))) 1 \<rparr>
       | None \<Rightarrow> Inl NonError))"

text \<open>
  \<^verbatim>\<open>transcribeLyrics\<close> (services/geminiService, lines 17-48). The request carries the
  payload, the media type, the model name and the instruction text; the last two are
  constants of the source and do not depend on the input. Whatever is thrown inside the
  \<^verbatim>\<open>try\<close> block is rethrown as an \<^verbatim>\<open>Error\<close>. The check of \<^verbatim>\<open>API_KEY\<close> runs once when
  the module loads, before any handler exists.
\<close>

definition transcribeLyrics ::
  "world \<Rightarrow> jsstring option \<Rightarrow> jsstring option \<Rightarrow> event list \<times> (thrown + jsstring)" where
  "transcribeLyrics w audioBase64 mime =
     (case generateContent w audioBase64 mime of
        Inr text \<Rightarrow> ([Eff (GenerateContent audioBase64 mime)], Inr (trim text))
      | Inl err \<Rightarrow>
          ([Eff (GenerateContent audioBase64 mime), Eff (ConsoleError err)],
           (case err of
              JsError message \<Rightarrow>
                Inl (JsError (lit ''An error occurred while communicating with the AI: '' @ message))
            | NonError \<Rightarrow>
                Inl (JsError (lit ''An unknown error occurred during transcription.'')))))"

text \<open>
  \<^verbatim>\<open>handleFileChange\<close> (App.tsx, lines 170-187). \<open>files\<close> is \<^verbatim>\<open>event.target.files\<close>
  (\<open>None\<close> for \<^verbatim>\<open>null\<close>); \<^verbatim>\<open>audioSrc\<close> is read from the state the handler was rendered
  with, and is truthy when it is a non-empty string.
\<close>

definition handleFileChange :: "world \<Rightarrow> File list option \<Rightarrow> app_state \<Rightarrow> event list" where
  "handleFileChange w files s =
     (case files of
        None \<Rightarrow> []
      | Some [] \<Rightarrow> []
      | Some (f0 # _) \<Rightarrow>
          if size_bytes f0 > 50 * 1024 * 1024 then
            [Set (SetError (Some (lit ''File is too large. Please select a file smaller than 50MB.''))),
             Set (SetStatus ERROR),
             Set (SetFile None)]
          else
            handleReset @
            [Set (SetFile (Some f0))] @
            (case audioSrc s of
               None \<Rightarrow> []
             | Some url \<Rightarrow> if url = [] then [] else [Eff (RevokeObjectURL url)]) @
            [Eff (CreateObjectURL f0),
             Set (SetAudioSrc (Some (createObjectURL w f0))),
             Set (SetStatus IDLE)])"

text \<open>
  \<^verbatim>\<open>handleSubmit\<close> (App.tsx, lines 189-228). \<open>handleSubmit_catch\<close> is its \<^verbatim>\<open>catch\<close>
  block. \<^verbatim>\<open>file\<close> is read from the state the handler was rendered with.
\<close>

definition handleSubmit_catch :: "thrown \<Rightarrow> event list" where
  "handleSubmit_catch e =
     [Eff (ConsoleError e),
      Set (SetError (Some (case e of
                             JsError message \<Rightarrow> message
                           | NonError \<Rightarrow> lit ''An unexpected error occurred.''))),
      Set (SetStatus ERROR),
      Set (SetProgress 0)]"

definition handleSubmit :: "world \<Rightarrow> app_state \<Rightarrow> event list" where
  "handleSubmit w s =
     (case file_sel s of
        None \<Rightarrow> []
      | Some f \<Rightarrow>
          [Set (SetStatus PROCESSING),
           Set (SetError None),
           Set (SetLyrics []),
           Set (SetProgress 0),
           Set (SetStatusMessage (lit ''Reading audio file...''))] @
          (case fileToBase64 w f of
             (es1, Inl e) \<Rightarrow> es1 @ handleSubmit_catch e
           | (es1, Inr p) \<Rightarrow>
               es1 @
               [Set (SetProgress 25),
                Eff (Wait 500),
                Set (SetStatusMessage (lit ''Analyzing vocals...'')),
                Set (SetProgress 50),
                Eff (Wait 1500),
                Set (SetStatusMessage (lit ''Writing lyrics...'')),
                Set (SetProgress 75)] @
               (case transcribeLyrics w (base64 p) (mimeType p) of
                  (es2, Inl e) \<Rightarrow> es2 @ handleSubmit_catch e
                | (es2, Inr transcribedText) \<Rightarrow>
                    es2 @
                    [Set (SetProgress 100),
                     Eff (Wait 500),
                     Set (SetLyrics
                            (if transcribedText = []
                             then lit ''The AI could not find any lyrics in this audio file.''
                             else transcribedText)),
                     Set (SetStatus SUCCESS)])))"

section \<open>The rendered controls\<close>

text \<open>
  What the user can do (App.tsx, lines 148-149 and 238-278): the results screen, with
  its reset button, replaces the upload form when the status is \<^verbatim>\<open>SUCCESS\<close> or
  \<^verbatim>\<open>ERROR\<close>; the file input is disabled while processing; the submit button is disabled
  without a file and while processing.
\<close>

definition isProcessing :: "app_state \<Rightarrow> bool" where
  "isProcessing s = (status s = PROCESSING)"

definition showResults :: "app_state \<Rightarrow> bool" where
  "showResults s = (status s = SUCCESS \<or> status s = ERROR)"

datatype action = FileChange world "File list option" | Submit world | Reset

fun handler :: "action \<Rightarrow> app_state \<Rightarrow> event list" where
  "handler (FileChange w files) s = handleFileChange w files s"
| "handler (Submit w) s = handleSubmit w s"
| "handler Reset s = handleReset"

fun enabled :: "app_state \<Rightarrow> action \<Rightarrow> bool" where
  "enabled s (FileChange w files) = (\<not> showResults s \<and> \<not> isProcessing s)"
| "enabled s (Submit w) = (\<not> showResults s \<and> \<not> (file_sel s = None \<or> isProcessing s))"
| "enabled s Reset = showResults s"

text \<open>
  \<open>ui_run\<close> follows a sequence of user actions: a handler is called only when its
  control is rendered and enabled in the current state, and an action on a control that
  is not there has no effect. A submission runs to its end before the next action:
  while it is processing no control is enabled.
\<close>

fun ui_run :: "action list \<Rightarrow> app_state \<Rightarrow> event list" where
  "ui_run [] s = []"
| "ui_run (a # as) s =
     (if enabled s a then handler a s @ ui_run as (exec (handler a s) s)
      else ui_run as s)"

section \<open>Notions of the specification\<close>

text \<open>A state shows both results when its lyrics and its error message are non-empty.\<close>

definition both_set :: "app_state \<Rightarrow> bool" where
  "both_set s =
     (lyrics s \<noteq> [] \<and> (case error s of None \<Rightarrow> False | Some m \<Rightarrow> m \<noteq> []))"

text \<open>
  The states between two handlers, as the rendered controls allow them: never
  processing, nothing left over when idle, no error beside a success, no lyrics beside
  an error.
\<close>

definition settled :: "app_state \<Rightarrow> bool" where
  "settled s =
     (case status s of
        IDLE \<Rightarrow> lyrics s = [] \<and> error s = None \<and> progress s = 0
      | PROCESSING \<Rightarrow> False
      | SUCCESS \<Rightarrow> error s = None
      | ERROR \<Rightarrow> lyrics s = [])"

text \<open>Lyrics and error message are kept apart: one of them is unset.\<close>

definition separate :: "app_state \<Rightarrow> bool" where
  "separate s = (lyrics s = [] \<or> error s = None)"

text \<open>\<open>in_order xs ys\<close>: the events \<open>xs\<close> occur in \<open>ys\<close>, in this order.\<close>

fun in_order :: "'a list \<Rightarrow> 'a list \<Rightarrow> bool" where
  "in_order [] ys = True"
| "in_order (x # xs) [] = False"
| "in_order (x # xs) (y # ys) = (if x = y then in_order xs ys else in_order (x # xs) ys)"

text \<open>The \<^verbatim>\<open>message\<close> a thrown value carries: only an \<^verbatim>\<open>Error\<close> has one.\<close>

fun thrown_message :: "thrown \<Rightarrow> jsstring option" where
  "thrown_message (JsError message) = Some message"
| "thrown_message NonError = None"

section \<open>Example inputs\<close>

text \<open>
  A 2 MB file and a 60 MiB file; a world where the file reads and the model replies
  with a given text, one where the remote call throws a given value, and one where the
  file cannot be read.
\<close>

definition song :: File where
  "song = \<lparr> name = lit ''song.mp3'', size_bytes = 2000000 \<rparr>"

definition big_song :: File where
  "big_song = \<lparr> name = lit ''concert.wav'', size_bytes = 62914560 \<rparr>"

definition world_reply :: "jsstring \<Rightarrow> world" where
  "world_reply reply =
     \<lparr> readAsDataURL = (\<lambda>f. Some (lit ''data:audio/mpeg;base64,SUQz'')),
       generateContent = (\<lambda>b m. Inr reply),
       createObjectURL = (\<lambda>f. lit ''blob:1'') \<rparr>"

definition world_throw :: "thrown \<Rightarrow> world" where
  "world_throw e =
     \<lparr> readAsDataURL = (\<lambda>f. Some (lit ''data:audio/mpeg;base64,SUQz'')),
       generateContent = (\<lambda>b m. Inl e),
       createObjectURL = (\<lambda>f. lit ''blob:1'') \<rparr>"

definition world_unreadable :: world where
  "world_unreadable =
     \<lparr> readAsDataURL = (\<lambda>f. None),
       generateContent = (\<lambda>b m. Inr []),
       createObjectURL = (\<lambda>f. lit ''blob:1'') \<rparr>"

text \<open>A reply of a space, a line feed, a tab and an ideographic space.\<close>

definition blank_reply :: jsstring where
  "blank_reply = [0x0020, 0x000A, 0x0009, 0x3000]"

text \<open>The state with the 2 MB file selected, as \<^verbatim>\<open>handleFileChange\<close> leaves it.\<close>

definition selected :: app_state where
  "selected = initial\<lparr>file_sel := Some song, audioSrc := Some (lit ''blob:1'')\<rparr>"

text \<open>
  Selecting the 2 MB file, submitting it to a model that replies \<^verbatim>\<open>la\<close>, then
  selecting the 60 MiB file.
\<close>

definition ui_example :: "action list" where
  "ui_example =
     [FileChange (world_reply (lit ''la'')) (Some [song]),
      Submit (world_reply (lit ''la'')),
      FileChange (world_reply (lit ''la'')) (Some [big_song])]"

section \<open>Basic facts\<close>

lemma exec_append: "exec (es @ fs) s = exec fs (exec es s)"
  by (induction es s rule: exec.induct) simp_all

lemma states_append: "states (es @ fs) s = states es s @ states fs (exec es s)"
  by (induction es s rule: states.induct) simp_all

lemma split_from_not_Nil: "split_from sep piece s \<noteq> []"
  by (induction s arbitrary: piece) simp_all

lemma split_not_Nil: "split sep s \<noteq> []"
  by (simp add: split_def split_from_not_Nil)

lemma fileToBase64_events: "fileToBase64 w f = (es, r) \<Longrightarrow> es = [Eff (ReadAsDataURL f)]"
  by (auto simp: fileToBase64_def)

lemma fileToBase64_thrown: "fileToBase64 w f = (es, Inl e) \<Longrightarrow> e = NonError"
  by (auto simp: fileToBase64_def split: option.splits)

lemma transcribeLyrics_events:
  "transcribeLyrics w b m = (es, r) \<Longrightarrow> exec es s = s \<and> states es s = []"
  by (auto simp: transcribeLyrics_def split: sum.splits thrown.splits)

lemma transcribeLyrics_thrown:
  "transcribeLyrics w b m = (es, Inl e) \<Longrightarrow> \<exists>msg. e = JsError msg"
  by (auto simp: transcribeLyrics_def split: sum.splits thrown.splits)

lemma handleSubmit_no_file: "file_sel s = None \<Longrightarrow> handleSubmit w s = []"
  by (simp add: handleSubmit_def)

lemma handleSubmit_read_failed:
  assumes "file_sel s = Some f" "fileToBase64 w f = (es1, Inl e)"
  shows "handleSubmit w s =
          [Set (SetStatus PROCESSING), Set (SetError None), Set (SetLyrics []),
           Set (SetProgress 0), Set (SetStatusMessage (lit ''Reading audio file...'')),
           Eff (ReadAsDataURL f)] @ handleSubmit_catch e"
  using assms fileToBase64_events [OF assms(2)] by (simp add: handleSubmit_def)

lemma handleSubmit_call_failed:
  assumes "file_sel s = Some f" "fileToBase64 w f = (es1, Inr p)"
    "transcribeLyrics w (base64 p) (mimeType p) = (es2, Inl e)"
  shows "handleSubmit w s =
          [Set (SetStatus PROCESSING), Set (SetError None), Set (SetLyrics []),
           Set (SetProgress 0), Set (SetStatusMessage (lit ''Reading audio file...'')),
           Eff (ReadAsDataURL f),
           Set (SetProgress 25), Eff (Wait 500),
           Set (SetStatusMessage (lit ''Analyzing vocals...'')), Set (SetProgress 50),
           Eff (Wait 1500),
           Set (SetStatusMessage (lit ''Writing lyrics...'')), Set (SetProgress 75)] @
          es2 @ handleSubmit_catch e"
  using assms fileToBase64_events [OF assms(2)] by (simp add: handleSubmit_def)

lemma handleSubmit_success:
  assumes "file_sel s = Some f" "fileToBase64 w f = (es1, Inr p)"
    "transcribeLyrics w (base64 p) (mimeType p) = (es2, Inr t)"
  shows "handleSubmit w s =
          [Set (SetStatus PROCESSING), Set (SetError None), Set (SetLyrics []),
           Set (SetProgress 0), Set (SetStatusMessage (lit ''Reading audio file...'')),
           Eff (ReadAsDataURL f),
           Set (SetProgress 25), Eff (Wait 500),
           Set (SetStatusMessage (lit ''Analyzing vocals...'')), Set (SetProgress 50),
           Eff (Wait 1500),
           Set (SetStatusMessage (lit ''Writing lyrics...'')), Set (SetProgress 75)] @
          es2 @
          [Set (SetProgress 100), Eff (Wait 500),
           Set (SetLyrics (if t = []
                           then lit ''The AI could not find any lyrics in this audio file.''
                           else t)),
           Set (SetStatus SUCCESS)]"
  using assms fileToBase64_events [OF assms(2)] by (simp add: handleSubmit_def)

text \<open>The three ways a submission with a file ends.\<close>

lemma handleSubmit_cases:
  assumes "file_sel s = Some f"
  obtains (read_failed) es1 e where "fileToBase64 w f = (es1, Inl e)"
  | (call_failed) es1 p es2 e where "fileToBase64 w f = (es1, Inr p)"
      "transcribeLyrics w (base64 p) (mimeType p) = (es2, Inl e)"
  | (success) es1 p es2 t where "fileToBase64 w f = (es1, Inr p)"
      "transcribeLyrics w (base64 p) (mimeType p) = (es2, Inr t)"
proof (cases "fileToBase64 w f")
  case (Pair es1 r)
  show ?thesis
  proof (cases r)
    case (Inl e)
    with Pair read_failed show ?thesis by simp
  next
    case (Inr p)
    obtain es2 r2 where t: "transcribeLyrics w (base64 p) (mimeType p) = (es2, r2)"
      by (cases "transcribeLyrics w (base64 p) (mimeType p)")
    show ?thesis
    proof (cases r2)
      case (Inl e)
      with Pair Inr t call_failed show ?thesis by simp
    next
      case (Inr t2)
      with Pair \<open>r = Inr p\<close> t success show ?thesis by simp
    qed
  qed
qed

lemma lit_eq_Nil [simp]: "(lit s = []) = (s = [])"
  by (simp add: lit_def)

lemma submit_final_success:
  assumes "file_sel s = Some f" "fileToBase64 w f = (es1, Inr p)"
    "transcribeLyrics w (base64 p) (mimeType p) = (es2, Inr t)"
  shows "exec (handleSubmit w s) s =
           s\<lparr>status := SUCCESS, error := None,
              lyrics := (if t = []
                         then lit ''The AI could not find any lyrics in this audio file.''
                         else t),
              progress := 100, statusMessage := lit ''Writing lyrics...''\<rparr>"
  using transcribeLyrics_events [OF assms(3)]
  by (simp add: handleSubmit_success [OF assms] exec_append)

lemma submit_final_failed:
  assumes "file_sel s = Some f"
    "fileToBase64 w f = (es1, Inl e) \<or>
     (\<exists>p es2. fileToBase64 w f = (es1, Inr p) \<and>
        transcribeLyrics w (base64 p) (mimeType p) = (es2, Inl e))"
  shows "status (exec (handleSubmit w s) s) = ERROR \<and>
         progress (exec (handleSubmit w s) s) = 0 \<and>
         lyrics (exec (handleSubmit w s) s) = [] \<and>
         error (exec (handleSubmit w s) s) =
           Some (case e of JsError message \<Rightarrow> message
                 | NonError \<Rightarrow> lit ''An unexpected error occurred.'')"
  using assms(2)
proof (elim disjE exE conjE)
  assume a: "fileToBase64 w f = (es1, Inl e)"
  show ?thesis
    by (simp add: handleSubmit_read_failed [OF assms(1) a] handleSubmit_catch_def)
next
  fix p es2
  assume a: "fileToBase64 w f = (es1, Inr p)"
    and b: "transcribeLyrics w (base64 p) (mimeType p) = (es2, Inl e)"
  show ?thesis
    using transcribeLyrics_events [OF b]
    by (simp add: handleSubmit_call_failed [OF assms(1) a b] handleSubmit_catch_def exec_append)
qed

subsection \<open>The example inputs\<close>

lemma example_payload:
  "readAsDataURL w f = Some (lit ''data:audio/mpeg;base64,SUQz'') \<Longrightarrow>
   fileToBase64 w f =
     ([Eff (ReadAsDataURL f)],
      Inr \<lparr> base64 = Some (lit ''SUQz''), mimeType = Some (lit ''audio/mpeg'') \<rparr>)"
  by (simp add: fileToBase64_def split_def at_def lit_def)

lemma world_reply_payload:
  "fileToBase64 (world_reply r) f =
     ([Eff (ReadAsDataURL f)],
      Inr \<lparr> base64 = Some (lit ''SUQz''), mimeType = Some (lit ''audio/mpeg'') \<rparr>)"
  by (rule example_payload) (simp add: world_reply_def)

lemma world_throw_payload:
  "fileToBase64 (world_throw e) f =
     ([Eff (ReadAsDataURL f)],
      Inr \<lparr> base64 = Some (lit ''SUQz''), mimeType = Some (lit ''audio/mpeg'') \<rparr>)"
  by (rule example_payload) (simp add: world_throw_def)

lemma world_unreadable_fails:
  "fileToBase64 world_unreadable f = ([Eff (ReadAsDataURL f)], Inl NonError)"
  by (simp add: fileToBase64_def world_unreadable_def)

lemma trim_all_whitespace: "\<forall>c\<in>set raw. isWhiteSpace c \<Longrightarrow> trim raw = []"
proof -
  assume "\<forall>c\<in>set raw. isWhiteSpace c"
  then have d: "dropWhile isWhiteSpace raw = []" by (induction raw) simp_all
  show ?thesis by (simp only: trim_def d rev.simps dropWhile.simps)
qed

lemma trim_no_vocals:
  "trim (lit ''No vocals found in this track.'') = lit ''No vocals found in this track.''"
  by (simp add: trim_def lit_def isWhiteSpace_def)

lemma transcribeLyrics_reply:
  "generateContent w b m = Inr raw \<Longrightarrow>
   transcribeLyrics w b m = ([Eff (GenerateContent b m)], Inr (trim raw))"
  by (simp add: transcribeLyrics_def)

lemma transcribeLyrics_throw:
  "generateContent w b m = Inl err \<Longrightarrow>
   transcribeLyrics w b m =
     ([Eff (GenerateContent b m), Eff (ConsoleError err)],
      Inl (JsError (case err of
             JsError message \<Rightarrow> lit ''An error occurred while communicating with the AI: '' @ message
           | NonError \<Rightarrow> lit ''An unknown error occurred during transcription.'')))"
  by (simp add: transcribeLyrics_def split: thrown.splits)

lemma selected_file: "file_sel selected = Some song"
  by (simp add: selected_def)

lemma example_run:
  "handleSubmit (world_reply (lit ''la'')) selected =
     [Set (SetStatus PROCESSING), Set (SetError None), Set (SetLyrics []),
      Set (SetProgress 0),
      Set (SetStatusMessage (lit ''Reading audio file...'')),
      Eff (ReadAsDataURL song),
      Set (SetProgress 25),
      Eff (Wait 500),
      Set (SetStatusMessage (lit ''Analyzing vocals...'')),
      Set (SetProgress 50),
      Eff (Wait 1500),
      Set (SetStatusMessage (lit ''Writing lyrics...'')),
      Set (SetProgress 75),
      Eff (GenerateContent (Some (lit ''SUQz'')) (Some (lit ''audio/mpeg''))),
      Set (SetProgress 100),
      Eff (Wait 500),
      Set (SetLyrics (lit ''la'')),
      Set (SetStatus SUCCESS)]"
proof -
  have t: "transcribeLyrics (world_reply (lit ''la''))
             (base64 \<lparr> base64 = Some (lit ''SUQz''), mimeType = Some (lit ''audio/mpeg'') \<rparr>)
             (mimeType \<lparr> base64 = Some (lit ''SUQz''), mimeType = Some (lit ''audio/mpeg'') \<rparr>) =
           ([Eff (GenerateContent (Some (lit ''SUQz'')) (Some (lit ''audio/mpeg'')))], Inr (lit ''la''))"
    by (simp add: transcribeLyrics_def world_reply_def trim_def lit_def isWhiteSpace_def)
  show ?thesis
    using handleSubmit_success [OF selected_file world_reply_payload t] by simp
qed

lemma select_song:
  "exec (handleFileChange (world_reply r) (Some [song]) initial) initial = selected"
  by (simp add: handleFileChange_def handleReset_def song_def initial_def selected_def
      world_reply_def exec_append)

lemma example_run_final:
  "exec (handleSubmit (world_reply (lit ''la'')) selected) selected =
     selected\<lparr>status := SUCCESS, lyrics := lit ''la'', progress := 100,
       statusMessage := lit ''Writing lyrics...''\<rparr>"
  unfolding example_run by (simp add: selected_def initial_def)

lemma selected_fields:
  "status selected = IDLE" "error selected = None" "lyrics selected = []"
  "progress selected = 0"
  by (simp_all add: selected_def initial_def)

lemma enabled_select: "enabled initial (FileChange w files)"
  by (simp add: initial_def showResults_def isProcessing_def)

lemma enabled_submit: "enabled selected (Submit w)"
  by (simp add: selected_def initial_def showResults_def isProcessing_def)

section \<open>What the rendered controls preserve\<close>

text \<open>
  Between two handlers the state is \<open>settled\<close>, and every state a handler passes
  through keeps lyrics and error message apart, as long as each handler is called from a
  state in which its control is enabled.
\<close>

lemma separate_not_both: "separate s \<Longrightarrow> \<not> both_set s"
  by (auto simp: separate_def both_set_def)

lemma settled_separate: "settled s \<Longrightarrow> separate s"
  by (auto simp: settled_def separate_def split: ProcessingStatus.splits)

lemma settled_initial: "settled initial"
  by (simp add: settled_def initial_def)

lemma settled_idle: "settled s \<Longrightarrow> status s = IDLE \<Longrightarrow> lyrics s = [] \<and> error s = None \<and> progress s = 0"
  by (simp add: settled_def)

lemma enabled_idle:
  "enabled s (FileChange w files) \<Longrightarrow> status s = IDLE"
  "enabled s (Submit w) \<Longrightarrow> status s = IDLE \<and> file_sel s \<noteq> None"
  by (cases "status s"; simp add: showResults_def isProcessing_def)+

lemma reset_step:
  assumes "separate s"
  shows "settled (exec handleReset s) \<and> (\<forall>st\<in>set (states handleReset s). separate st)"
  using assms by (auto simp: handleReset_def settled_def separate_def)

lemma fileChange_step:
  assumes "settled s" "status s = IDLE"
  shows "settled (exec (handleFileChange w files s) s) \<and>
         (\<forall>st\<in>set (states (handleFileChange w files s) s). separate st)"
proof -
  note i = settled_idle [OF assms]
  show ?thesis
  proof (cases files)
    case None
    with assms show ?thesis by (simp add: handleFileChange_def)
  next
    case (Some fs)
    show ?thesis
    proof (cases fs)
      case Nil
      with Some assms show ?thesis by (simp add: handleFileChange_def)
    next
      case (Cons f0 rest)
      show ?thesis
      proof (cases "size_bytes f0 > 50 * 1024 * 1024")
        case True
        with Some Cons i show ?thesis
          by (simp add: handleFileChange_def settled_def separate_def)
      next
        case False
        with Some Cons i show ?thesis
          by (simp add: handleFileChange_def handleReset_def settled_def separate_def
              exec_append states_append split: option.splits)
      qed
    qed
  qed
qed

lemma submit_step:
  assumes "settled s" "status s = IDLE" "file_sel s = Some f"
  shows "settled (exec (handleSubmit w s) s) \<and>
         (\<forall>st\<in>set (states (handleSubmit w s) s). separate st)"
proof -
  note i = settled_idle [OF assms(1,2)]
  from assms(3) show ?thesis
  proof (cases rule: handleSubmit_cases [where w = w])
    case (read_failed es1 e)
    with i show ?thesis
      by (simp add: handleSubmit_read_failed [OF assms(3) read_failed] handleSubmit_catch_def
          settled_def separate_def)
  next
    case (call_failed es1 p es2 e)
    with i transcribeLyrics_events [OF call_failed(2)] show ?thesis
      by (simp add: handleSubmit_call_failed [OF assms(3) call_failed] handleSubmit_catch_def
          settled_def separate_def exec_append states_append)
  next
    case (success es1 p es2 t)
    with i transcribeLyrics_events [OF success(2)] show ?thesis
      by (simp add: handleSubmit_success [OF assms(3) success]
          settled_def separate_def exec_append states_append)
  qed
qed

lemma handler_step:
  assumes "settled s" "enabled s a"
  shows "settled (exec (handler a s) s) \<and> (\<forall>st\<in>set (states (handler a s) s). separate st)"
proof (cases a)
  case (FileChange w files)
  with assms fileChange_step [OF assms(1)] enabled_idle(1) show ?thesis by auto
next
  case (Submit w)
  with assms enabled_idle(2) [of s w] obtain f where "status s = IDLE" "file_sel s = Some f"
    by auto
  with Submit submit_step [OF assms(1)] show ?thesis by auto
next
  case Reset
  with reset_step [OF settled_separate [OF assms(1)]] show ?thesis by simp
qed

lemma ui_run_invariant:
  "settled s \<Longrightarrow>
   settled (exec (ui_run acts s) s) \<and> (\<forall>st\<in>set (states (ui_run acts s) s). separate st)"
proof (induction acts arbitrary: s)
  case Nil
  then show ?case by simp
next
  case (Cons a acts)
  show ?case
  proof (cases "enabled s a")
    case True
    note h = handler_step [OF Cons.prems True]
    from Cons.IH [of "exec (handler a s) s"] h True show ?thesis
      by (auto simp: exec_append states_append)
  next
    case False
    with Cons show ?thesis by simp
  qed
qed

section \<open>Properties\<close>

text \<open>
  C1. In every reachable state of the pipeline, that is after any sequence of file
  selections, submissions and resets made through the rendered controls, and also
  between the setter calls of a handler, the lyrics and the error message are never both
  set to non-empty values: a state with an error message has empty lyrics. Selecting an
  oversize file right after a successful run is among these sequences: the results
  screen has no file input, so the selection has no effect.
\<close>

theorem C1_lyrics_error_exclusive:
  "\<forall>st\<in>set (initial # states (ui_run acts initial) initial).
     \<not> both_set st \<and> (error st \<noteq> None \<longrightarrow> lyrics st = [])"
proof -
  have "\<forall>st\<in>set (initial # states (ui_run acts initial) initial). separate st"
    using ui_run_invariant [OF settled_initial, of acts] settled_separate [OF settled_initial]
    by simp
  then show ?thesis
    by (auto simp: separate_def both_set_def)
qed

text \<open>
  The 2 MB file selected and transcribed, then the 60 MiB file: it cannot be selected
  on the results screen, and the final state has the lyrics and no error.
\<close>

theorem C1_lyrics_error_exclusive_witness:
  "exec (ui_run ui_example initial) initial \<in>
     set (initial # states (ui_run ui_example initial) initial) \<and>
   lyrics (exec (ui_run ui_example initial) initial) = lit ''la'' \<and>
   error (exec (ui_run ui_example initial) initial) = None \<and>
   \<not> both_set (exec (ui_run ui_example initial) initial)"
proof -
  note e1 = enabled_select [of "world_reply (lit ''la'')" "Some [song]"]
  note e2 = enabled_submit [of "world_reply (lit ''la'')"]
  have e3: "\<not> enabled (exec (handleSubmit (world_reply (lit ''la'')) selected) selected)
              (FileChange (world_reply (lit ''la'')) (Some [big_song]))"
    by (simp add: example_run_final showResults_def)
  have r: "ui_run ui_example initial =
             handleFileChange (world_reply (lit ''la'')) (Some [song]) initial @
             handleSubmit (world_reply (lit ''la'')) selected"
    by (simp add: ui_example_def select_song e1 e2 e3 del: enabled.simps)
  have m: "exec (ui_run ui_example initial) initial \<in>
             set (initial # states (ui_run ui_example initial) initial)"
    unfolding r example_run by (simp add: exec_append states_append select_song)
  have f: "lyrics (exec (ui_run ui_example initial) initial) = lit ''la'' \<and>
           error (exec (ui_run ui_example initial) initial) = None"
    unfolding r by (simp add: exec_append select_song example_run_final selected_fields)
  from C1_lyrics_error_exclusive [of ui_example] m
  have "\<not> both_set (exec (ui_run ui_example initial) initial)" by blast
  with m f show ?thesis by blast
qed

text \<open>
  C2. For every selected file strictly larger than 52,428,800 bytes the machine never
  enters Processing: \<^verbatim>\<open>handleFileChange\<close> makes three setter calls and no effect (no
  file read, no network call), none of them sets the status to \<^verbatim>\<open>PROCESSING\<close>, the
  state becomes Error with the oversize message, no file is retained, and a submission
  in the resulting state does nothing.
\<close>

theorem C2_oversize_rejected:
  assumes "files = Some (f0 # rest)" and "size_bytes f0 > 52428800"
  shows "handleFileChange w files s =
           [Set (SetError (Some (lit ''File is too large. Please select a file smaller than 50MB.''))),
            Set (SetStatus ERROR),
            Set (SetFile None)] \<and>
         map status (states (handleFileChange w files s) s) = [status s, ERROR, ERROR] \<and>
         status (exec (handleFileChange w files s) s) = ERROR \<and>
         error (exec (handleFileChange w files s) s) =
           Some (lit ''File is too large. Please select a file smaller than 50MB.'') \<and>
         file_sel (exec (handleFileChange w files s) s) = None \<and>
         handleSubmit w' (exec (handleFileChange w files s) s) = []"
  using assms by (simp add: handleFileChange_def handleSubmit_no_file)

text \<open>The 60 MiB file, selected while the 2 MB file is selected.\<close>

theorem C2_oversize_rejected_witness:
  "size_bytes big_song > 52428800 \<and>
   handleFileChange (world_reply []) (Some [big_song]) selected =
     [Set (SetError (Some (lit ''File is too large. Please select a file smaller than 50MB.''))),
      Set (SetStatus ERROR),
      Set (SetFile None)] \<and>
   map status (states (handleFileChange (world_reply []) (Some [big_song]) selected) selected) =
     [IDLE, ERROR, ERROR] \<and>
   file_sel (exec (handleFileChange (world_reply []) (Some [big_song]) selected) selected) = None \<and>
   handleSubmit (world_reply []) (exec (handleFileChange (world_reply []) (Some [big_song]) selected) selected) = []"
proof -
  have big: "size_bytes big_song > 52428800" by (simp add: big_song_def)
  have idle: "status selected = IDLE" by (simp add: selected_def initial_def)
  show ?thesis
    using big C2_oversize_rejected [OF refl big, where rest = "[]" and w = "world_reply []"
        and s = selected and w' = "world_reply []"]
    unfolding idle by blast
qed

text \<open>
  C3. For every run started by submit (from a state reached through the controls, in
  which the submit button is enabled), the progress values after the setter calls of the
  run are non-decreasing and end at 100 when the run reaches Success; when it reaches
  Error they are non-decreasing up to the last one, which is the reset to 0. Every run
  reaches one of the two.
\<close>

theorem C3_progress_monotone:
  assumes "s = exec (ui_run acts initial) initial" and "enabled s (Submit w)"
  shows "(status (exec (handleSubmit w s) s) = SUCCESS \<and>
          sorted (map progress (states (handleSubmit w s) s)) \<and>
          last (map progress (states (handleSubmit w s) s)) = 100) \<or>
         (status (exec (handleSubmit w s) s) = ERROR \<and>
          sorted (butlast (map progress (states (handleSubmit w s) s))) \<and>
          last (map progress (states (handleSubmit w s) s)) = 0)"
proof -
  have st: "settled s"
    using ui_run_invariant [OF settled_initial, of acts] assms(1) by simp
  from enabled_idle(2) [OF assms(2)] obtain f where idle: "status s = IDLE"
    and f: "file_sel s = Some f" by auto
  from settled_idle [OF st idle] have p0: "progress s = 0" by simp
  from f show ?thesis
  proof (cases rule: handleSubmit_cases [where w = w])
    case (read_failed es1 e)
    with p0 show ?thesis
      by (simp add: handleSubmit_read_failed [OF f read_failed] handleSubmit_catch_def)
  next
    case (call_failed es1 p es2 e)
    with p0 transcribeLyrics_events [OF call_failed(2)] show ?thesis
      by (simp add: handleSubmit_call_failed [OF f call_failed] handleSubmit_catch_def
          exec_append states_append)
  next
    case (success es1 p es2 t)
    with p0 transcribeLyrics_events [OF success(2)] show ?thesis
      by (simp add: handleSubmit_success [OF f success] exec_append states_append)
  qed
qed

text \<open>The successful run of the 2 MB file and its thirteen progress values.\<close>

theorem C3_progress_monotone_witness:
  "enabled selected (Submit (world_reply (lit ''la''))) \<and>
   status (exec (handleSubmit (world_reply (lit ''la'')) selected) selected) = SUCCESS \<and>
   map progress (states (handleSubmit (world_reply (lit ''la'')) selected) selected) =
     [0, 0, 0, 0, 0, 25, 25, 50, 50, 75, 100, 100, 100] \<and>
   sorted (map progress (states (handleSubmit (world_reply (lit ''la'')) selected) selected)) \<and>
   last (map progress (states (handleSubmit (world_reply (lit ''la'')) selected) selected)) = 100"
proof -
  have r: "selected =
             exec (ui_run [FileChange (world_reply (lit ''la'')) (Some [song])] initial) initial"
    by (simp add: select_song enabled_select del: enabled.simps)
  note e = enabled_submit [of "world_reply (lit ''la'')"]
  have s: "status (exec (handleSubmit (world_reply (lit ''la'')) selected) selected) = SUCCESS"
    by (simp add: example_run_final)
  have p: "map progress (states (handleSubmit (world_reply (lit ''la'')) selected) selected) =
             [0, 0, 0, 0, 0, 25, 25, 50, 50, 75, 100, 100, 100]"
    unfolding example_run by (simp add: selected_def initial_def)
  from C3_progress_monotone [OF r e] s
  have "sorted (map progress (states (handleSubmit (world_reply (lit ''la'')) selected) selected)) \<and>
        last (map progress (states (handleSubmit (world_reply (lit ''la'')) selected) selected)) = 100"
    by simp
  with e s p show ?thesis by blast
qed

text \<open>
  C4. Calling reset from any state (Idle, Processing, Success or Error, with any
  contents of the other cells) yields the Idle state with empty lyrics, null error
  message, progress 0 and no file selected.
\<close>

theorem C4_reset_yields_idle:
  "exec handleReset s =
     \<lparr> file_sel = None, audioSrc = None, status = IDLE,
       statusMessage = lit ''Select an audio file to begin.'',
       lyrics = [], error = None, progress = 0 \<rparr>"
  by (simp add: handleReset_def)

text \<open>
  C5. If the remote call returns exactly the sentinel \<^verbatim>\<open>No vocals found in this track.\<close>,
  the run reaches Success and the lyrics equal that sentinel unchanged.
\<close>

theorem C5_sentinel_passed_through:
  assumes "file_sel s = Some f" and "fileToBase64 w f = (es, Inr p)"
    and "generateContent w (base64 p) (mimeType p) = Inr (lit ''No vocals found in this track.'')"
  shows "status (exec (handleSubmit w s) s) = SUCCESS \<and>
         lyrics (exec (handleSubmit w s) s) = lit ''No vocals found in this track.''"
proof -
  have "transcribeLyrics w (base64 p) (mimeType p) =
          ([Eff (GenerateContent (base64 p) (mimeType p))], Inr (lit ''No vocals found in this track.''))"
    using transcribeLyrics_reply [OF assms(3)] by (simp add: trim_no_vocals)
  from submit_final_success [OF assms(1,2) this] show ?thesis by simp
qed

text \<open>The 2 MB file with a model that replies with the sentinel.\<close>

theorem C5_sentinel_passed_through_witness:
  "status (exec (handleSubmit (world_reply (lit ''No vocals found in this track.'')) selected) selected) = SUCCESS \<and>
   lyrics (exec (handleSubmit (world_reply (lit ''No vocals found in this track.'')) selected) selected) =
     lit ''No vocals found in this track.''"
proof -
  have f: "file_sel selected = Some song" by (simp add: selected_def)
  have g: "generateContent (world_reply (lit ''No vocals found in this track.''))
             (base64 \<lparr> base64 = Some (lit ''SUQz''), mimeType = Some (lit ''audio/mpeg'') \<rparr>)
             (mimeType \<lparr> base64 = Some (lit ''SUQz''), mimeType = Some (lit ''audio/mpeg'') \<rparr>) =
           Inr (lit ''No vocals found in this track.'')"
    by (simp add: world_reply_def)
  show ?thesis by (rule C5_sentinel_passed_through [OF f world_reply_payload g])
qed

text \<open>
  C6. If the remote transcription call returns the empty string, the run reaches
  Success and the lyrics equal the fallback message, never the empty string.
\<close>

theorem C6_empty_reply_fallback:
  assumes "file_sel s = Some f" and "fileToBase64 w f = (es, Inr p)"
    and "transcribeLyrics w (base64 p) (mimeType p) = (es2, Inr [])"
  shows "status (exec (handleSubmit w s) s) = SUCCESS \<and>
         lyrics (exec (handleSubmit w s) s) =
           lit ''The AI could not find any lyrics in this audio file.'' \<and>
         lyrics (exec (handleSubmit w s) s) \<noteq> []"
  using submit_final_success [OF assms] by simp

text \<open>The 2 MB file with a model that replies with the empty text.\<close>

theorem C6_empty_reply_fallback_witness:
  "transcribeLyrics (world_reply []) (Some (lit ''SUQz'')) (Some (lit ''audio/mpeg'')) =
     ([Eff (GenerateContent (Some (lit ''SUQz'')) (Some (lit ''audio/mpeg'')))], Inr []) \<and>
   status (exec (handleSubmit (world_reply []) selected) selected) = SUCCESS \<and>
   lyrics (exec (handleSubmit (world_reply []) selected) selected) =
     lit ''The AI could not find any lyrics in this audio file.''"
proof -
  have f: "file_sel selected = Some song" by (simp add: selected_def)
  have t: "transcribeLyrics (world_reply [])
             (base64 \<lparr> base64 = Some (lit ''SUQz''), mimeType = Some (lit ''audio/mpeg'') \<rparr>)
             (mimeType \<lparr> base64 = Some (lit ''SUQz''), mimeType = Some (lit ''audio/mpeg'') \<rparr>) =
           ([Eff (GenerateContent (Some (lit ''SUQz'')) (Some (lit ''audio/mpeg'')))], Inr [])"
    by (simp add: transcribeLyrics_def world_reply_def trim_def)
  show ?thesis using C6_empty_reply_fallback [OF f world_reply_payload t] t by simp
qed

text \<open>
  C7. When the remote call fails with an \<^verbatim>\<open>Error\<close> of message \<open>m\<close>, the run ends in
  Error and the error message is \<open>m\<close> itself behind the prefix
  \<^verbatim>\<open>An error occurred while communicating with the AI: \<close>; when the thrown value is not
  an \<^verbatim>\<open>Error\<close>, the error message is the fixed text
  \<^verbatim>\<open>An unknown error occurred during transcription.\<close>
\<close>

theorem C7_remote_failure_message:
  assumes "file_sel s = Some f" and "fileToBase64 w f = (es, Inr p)"
    and "generateContent w (base64 p) (mimeType p) = Inl err"
  shows "status (exec (handleSubmit w s) s) = ERROR \<and>
         error (exec (handleSubmit w s) s) =
           Some (case err of
                   JsError m \<Rightarrow> lit ''An error occurred while communicating with the AI: '' @ m
                 | NonError \<Rightarrow> lit ''An unknown error occurred during transcription.'')"
proof -
  note t = transcribeLyrics_throw [OF assms(3)]
  have "fileToBase64 w f = (es, Inl e) \<or>
        (\<exists>p es2. fileToBase64 w f = (es, Inr p) \<and>
           transcribeLyrics w (base64 p) (mimeType p) = (es2, Inl e))"
    if "e = JsError (case err of
                   JsError m \<Rightarrow> lit ''An error occurred while communicating with the AI: '' @ m
                 | NonError \<Rightarrow> lit ''An unknown error occurred during transcription.'')" for e
    using assms(2) t that by blast
  from submit_final_failed [OF assms(1) this [OF refl]] show ?thesis by simp
qed

text \<open>A remote call that throws \<^verbatim>\<open>quota exceeded\<close>, and one that throws a non-error.\<close>

theorem C7_remote_failure_message_witness:
  "error (exec (handleSubmit (world_throw (JsError (lit ''quota exceeded''))) selected) selected) =
     Some (lit ''An error occurred while communicating with the AI: '' @ lit ''quota exceeded'') \<and>
   status (exec (handleSubmit (world_throw (JsError (lit ''quota exceeded''))) selected) selected) = ERROR \<and>
   error (exec (handleSubmit (world_throw NonError) selected) selected) =
     Some (lit ''An unknown error occurred during transcription.'') \<and>
   status (exec (handleSubmit (world_throw NonError) selected) selected) = ERROR"
proof -
  have g: "generateContent (world_throw e)
             (base64 \<lparr> base64 = Some (lit ''SUQz''), mimeType = Some (lit ''audio/mpeg'') \<rparr>)
             (mimeType \<lparr> base64 = Some (lit ''SUQz''), mimeType = Some (lit ''audio/mpeg'') \<rparr>) =
           Inl e" for e
    by (simp add: world_throw_def)
  show ?thesis
    using C7_remote_failure_message [OF selected_file world_throw_payload g, of "JsError (lit ''quota exceeded'')"]
      C7_remote_failure_message [OF selected_file world_throw_payload g, of NonError]
    by simp
qed

text \<open>
  C8 as stated puts the pacing delay of the stage \<^verbatim>\<open>Analyzing vocals...\<close> before
  progress 50. In the run of the 2 MB file no delay lies between that message and
  progress 50:
  the delay of 1500 ms follows progress 50.
\<close>

theorem C8_counterexample:
  "\<not> in_order [Set (SetStatusMessage (lit ''Analyzing vocals...'')), Eff (Wait 1500),
               Set (SetProgress 50)]
       (handleSubmit (world_reply (lit ''la'')) selected) \<and>
   \<not> in_order [Set (SetStatusMessage (lit ''Analyzing vocals...'')), Eff (Wait 500),
               Set (SetProgress 50)]
       (handleSubmit (world_reply (lit ''la'')) selected) \<and>
   in_order [Set (SetStatusMessage (lit ''Analyzing vocals...'')), Set (SetProgress 50),
             Eff (Wait 1500)]
       (handleSubmit (world_reply (lit ''la'')) selected)"
  unfolding example_run by (simp add: lit_def)

text \<open>
  C8, as amended. Within one run whose file reads and whose remote call returns, the
  events occur in this fixed order: message \<^verbatim>\<open>Reading audio file...\<close>, the file read,
  progress 25, a delay of 500 ms, message \<^verbatim>\<open>Analyzing vocals...\<close>, progress 50, then the
  pacing delay of 1500 ms, message \<^verbatim>\<open>Writing lyrics...\<close>, progress 75, the remote call,
  progress 100, a delay of 500 ms, the lyrics and the status \<^verbatim>\<open>SUCCESS\<close>. Each update
  of the stage message and of the progress precedes the next action.
\<close>

theorem C8_stage_order:
  assumes "file_sel s = Some f" and "fileToBase64 w f = (es, Inr p)"
    and "generateContent w (base64 p) (mimeType p) = Inr raw"
  shows "handleSubmit w s =
           [Set (SetStatus PROCESSING), Set (SetError None), Set (SetLyrics []),
            Set (SetProgress 0),
            Set (SetStatusMessage (lit ''Reading audio file...'')),
            Eff (ReadAsDataURL f),
            Set (SetProgress 25),
            Eff (Wait 500),
            Set (SetStatusMessage (lit ''Analyzing vocals...'')),
            Set (SetProgress 50),
            Eff (Wait 1500),
            Set (SetStatusMessage (lit ''Writing lyrics...'')),
            Set (SetProgress 75),
            Eff (GenerateContent (base64 p) (mimeType p)),
            Set (SetProgress 100),
            Eff (Wait 500),
            Set (SetLyrics (if trim raw = []
                            then lit ''The AI could not find any lyrics in this audio file.''
                            else trim raw)),
            Set (SetStatus SUCCESS)]"
  using handleSubmit_success [OF assms(1,2) transcribeLyrics_reply [OF assms(3)]] by simp

text \<open>The 2 MB file with a model that replies \<^verbatim>\<open>la\<close>.\<close>

theorem C8_stage_order_witness:
  "handleSubmit (world_reply (lit ''la'')) selected =
     [Set (SetStatus PROCESSING), Set (SetError None), Set (SetLyrics []),
      Set (SetProgress 0),
      Set (SetStatusMessage (lit ''Reading audio file...'')),
      Eff (ReadAsDataURL song),
      Set (SetProgress 25),
      Eff (Wait 500),
      Set (SetStatusMessage (lit ''Analyzing vocals...'')),
      Set (SetProgress 50),
      Eff (Wait 1500),
      Set (SetStatusMessage (lit ''Writing lyrics...'')),
      Set (SetProgress 75),
      Eff (GenerateContent (Some (lit ''SUQz'')) (Some (lit ''audio/mpeg''))),
      Set (SetProgress 100),
      Eff (Wait 500),
      Set (SetLyrics (lit ''la'')),
      Set (SetStatus SUCCESS)]"
proof -
  have g: "generateContent (world_reply (lit ''la''))
             (base64 \<lparr> base64 = Some (lit ''SUQz''), mimeType = Some (lit ''audio/mpeg'') \<rparr>)
             (mimeType \<lparr> base64 = Some (lit ''SUQz''), mimeType = Some (lit ''audio/mpeg'') \<rparr>) =
           Inr (lit ''la'')"
    by (simp add: world_reply_def)
  have t: "trim (lit ''la'') = lit ''la''"
    by (simp add: trim_def lit_def isWhiteSpace_def)
  show ?thesis
    using C8_stage_order [OF selected_file world_reply_payload g] by (simp add: t)
qed

text \<open>
  C9 as stated sets the error message to the failure's message. When the file cannot be
  read, the value that rejects has no message and the error message is the fixed text.
\<close>

theorem C9_counterexample:
  "fileToBase64 world_unreadable song = ([Eff (ReadAsDataURL song)], Inl NonError) \<and>
   thrown_message NonError = None \<and>
   error (exec (handleSubmit world_unreadable selected) selected) =
     Some (lit ''An unexpected error occurred.'') \<and>
   error (exec (handleSubmit world_unreadable selected) selected) \<noteq> thrown_message NonError"
  by (simp add: world_unreadable_fails
      handleSubmit_read_failed [OF selected_file world_unreadable_fails] handleSubmit_catch_def)

text \<open>
  C9, as amended. A failure of the file read or of the remote transcription call takes
  the run to Error with progress 0, and no state of the run has the status
  \<^verbatim>\<open>SUCCESS\<close>. A failure of the transcription call is an \<^verbatim>\<open>Error\<close> and the error
  message is its message; a failure of the file read rejects with the reader's event,
  which carries no message, and the error message is the fixed text
  \<^verbatim>\<open>An unexpected error occurred.\<close>
\<close>

theorem C9_failure_to_error:
  assumes "file_sel s = Some f"
  shows "(fileToBase64 w f = (es1, Inl e) \<longrightarrow>
            status (exec (handleSubmit w s) s) = ERROR \<and>
            progress (exec (handleSubmit w s) s) = 0 \<and>
            error (exec (handleSubmit w s) s) = Some (lit ''An unexpected error occurred.'') \<and>
            SUCCESS \<notin> set (map status (states (handleSubmit w s) s))) \<and>
         (fileToBase64 w f = (es1, Inr p) \<and>
          transcribeLyrics w (base64 p) (mimeType p) = (es2, Inl e) \<longrightarrow>
            status (exec (handleSubmit w s) s) = ERROR \<and>
            progress (exec (handleSubmit w s) s) = 0 \<and>
            error (exec (handleSubmit w s) s) = thrown_message e \<and>
            thrown_message e \<noteq> None \<and>
            SUCCESS \<notin> set (map status (states (handleSubmit w s) s)))"
proof (rule conjI)
  show "fileToBase64 w f = (es1, Inl e) \<longrightarrow>
          status (exec (handleSubmit w s) s) = ERROR \<and>
          progress (exec (handleSubmit w s) s) = 0 \<and>
          error (exec (handleSubmit w s) s) = Some (lit ''An unexpected error occurred.'') \<and>
          SUCCESS \<notin> set (map status (states (handleSubmit w s) s))"
  proof (rule impI)
    assume a: "fileToBase64 w f = (es1, Inl e)"
    have e: "e = NonError" by (rule fileToBase64_thrown [OF a])
    show "status (exec (handleSubmit w s) s) = ERROR \<and>
          progress (exec (handleSubmit w s) s) = 0 \<and>
          error (exec (handleSubmit w s) s) = Some (lit ''An unexpected error occurred.'') \<and>
          SUCCESS \<notin> set (map status (states (handleSubmit w s) s))"
      by (simp add: handleSubmit_read_failed [OF assms a] handleSubmit_catch_def e)
  qed
next
  show "fileToBase64 w f = (es1, Inr p) \<and>
        transcribeLyrics w (base64 p) (mimeType p) = (es2, Inl e) \<longrightarrow>
          status (exec (handleSubmit w s) s) = ERROR \<and>
          progress (exec (handleSubmit w s) s) = 0 \<and>
          error (exec (handleSubmit w s) s) = thrown_message e \<and>
          thrown_message e \<noteq> None \<and>
          SUCCESS \<notin> set (map status (states (handleSubmit w s) s))"
  proof (rule impI)
    assume "fileToBase64 w f = (es1, Inr p) \<and>
            transcribeLyrics w (base64 p) (mimeType p) = (es2, Inl e)"
    then have a: "fileToBase64 w f = (es1, Inr p)"
      and b: "transcribeLyrics w (base64 p) (mimeType p) = (es2, Inl e)" by simp_all
    obtain msg where e: "e = JsError msg" using transcribeLyrics_thrown [OF b] by blast
    show "status (exec (handleSubmit w s) s) = ERROR \<and>
          progress (exec (handleSubmit w s) s) = 0 \<and>
          error (exec (handleSubmit w s) s) = thrown_message e \<and>
          thrown_message e \<noteq> None \<and>
          SUCCESS \<notin> set (map status (states (handleSubmit w s) s))"
      using transcribeLyrics_events [OF b]
      by (simp add: handleSubmit_call_failed [OF assms a b] handleSubmit_catch_def e
          exec_append states_append)
  qed
qed

text \<open>A file that cannot be read, and a remote call that throws \<^verbatim>\<open>quota exceeded\<close>.\<close>

theorem C9_failure_to_error_witness:
  "status (exec (handleSubmit world_unreadable selected) selected) = ERROR \<and>
   progress (exec (handleSubmit world_unreadable selected) selected) = 0 \<and>
   error (exec (handleSubmit world_unreadable selected) selected) =
     Some (lit ''An unexpected error occurred.'') \<and>
   status (exec (handleSubmit (world_throw (JsError (lit ''quota exceeded''))) selected) selected) = ERROR \<and>
   progress (exec (handleSubmit (world_throw (JsError (lit ''quota exceeded''))) selected) selected) = 0 \<and>
   error (exec (handleSubmit (world_throw (JsError (lit ''quota exceeded''))) selected) selected) =
     Some (lit ''An error occurred while communicating with the AI: '' @ lit ''quota exceeded'')"
proof -
  have g: "generateContent (world_throw (JsError (lit ''quota exceeded'')))
             (base64 \<lparr> base64 = Some (lit ''SUQz''), mimeType = Some (lit ''audio/mpeg'') \<rparr>)
             (mimeType \<lparr> base64 = Some (lit ''SUQz''), mimeType = Some (lit ''audio/mpeg'') \<rparr>) =
           Inl (JsError (lit ''quota exceeded''))"
    by (simp add: world_throw_def)
  note t = transcribeLyrics_throw [OF g]
  show ?thesis
    using C9_failure_to_error [OF selected_file, where w = world_unreadable
        and ?es1.0 = "[Eff (ReadAsDataURL song)]" and e = NonError]
      C9_failure_to_error [OF selected_file,
        where w = "world_throw (JsError (lit ''quota exceeded''))"
        and ?es1.0 = "[Eff (ReadAsDataURL song)]"
        and p = "\<lparr> base64 = Some (lit ''SUQz''), mimeType = Some (lit ''audio/mpeg'') \<rparr>"
        and ?es2.0 = "[Eff (GenerateContent (Some (lit ''SUQz'')) (Some (lit ''audio/mpeg''))),
                      Eff (ConsoleError (JsError (lit ''quota exceeded'')))]"
        and e = "JsError (lit ''An error occurred while communicating with the AI: '' @ lit ''quota exceeded'')"]
      world_unreadable_fails [of song] world_throw_payload [of "JsError (lit ''quota exceeded'')" song] t
    by simp
qed

text \<open>
  C10. If the raw response text consists only of whitespace characters, the trimmed
  result is empty and the run reaches Success with the fallback message as lyrics, as
  for an empty response.
\<close>

theorem C10_whitespace_reply_fallback:
  assumes "file_sel s = Some f" and "fileToBase64 w f = (es, Inr p)"
    and "generateContent w (base64 p) (mimeType p) = Inr raw"
    and "\<forall>c\<in>set raw. isWhiteSpace c"
  shows "trim raw = [] \<and>
         status (exec (handleSubmit w s) s) = SUCCESS \<and>
         lyrics (exec (handleSubmit w s) s) =
           lit ''The AI could not find any lyrics in this audio file.''"
proof -
  have e: "trim raw = []" by (rule trim_all_whitespace [OF assms(4)])
  have "transcribeLyrics w (base64 p) (mimeType p) =
          ([Eff (GenerateContent (base64 p) (mimeType p))], Inr [])"
    using transcribeLyrics_reply [OF assms(3)] by (simp add: e)
  from submit_final_success [OF assms(1,2) this] e show ?thesis by simp
qed

text \<open>A model that replies with four whitespace characters.\<close>

theorem C10_whitespace_reply_fallback_witness:
  "list_all isWhiteSpace blank_reply \<and> blank_reply \<noteq> [] \<and> trim blank_reply = [] \<and>
   status (exec (handleSubmit (world_reply blank_reply) selected) selected) = SUCCESS \<and>
   lyrics (exec (handleSubmit (world_reply blank_reply) selected) selected) =
     lit ''The AI could not find any lyrics in this audio file.''"
proof -
  have ws: "\<forall>c\<in>set blank_reply. isWhiteSpace c"
    by (simp add: blank_reply_def isWhiteSpace_def)
  have g: "generateContent (world_reply blank_reply)
             (base64 \<lparr> base64 = Some (lit ''SUQz''), mimeType = Some (lit ''audio/mpeg'') \<rparr>)
             (mimeType \<lparr> base64 = Some (lit ''SUQz''), mimeType = Some (lit ''audio/mpeg'') \<rparr>) =
           Inr blank_reply"
    by (simp add: world_reply_def)
  have ne: "blank_reply \<noteq> []" by (simp add: blank_reply_def)
  show ?thesis
    using C10_whitespace_reply_fallback [OF selected_file world_reply_payload g ws] ws ne
    by (simp add: list_all_iff)
qed

end
